theory Spec2Isabelle
  imports Main
begin

section \<open>JavaScript values used by the naming code\<close>

text \<open>
  The naming code of gulp-kitchen-sink receives group names, action names and prefixes that
  are documented as strings, with \<^verbatim>\<open>undefined\<close> (or \<^verbatim>\<open>null\<close>) for an omitted
  argument and \<^verbatim>\<open>false\<close> for a disabled prefix. These kinds of value are kept apart,
  with JavaScript's truthiness test and its string conversion (used by \<^verbatim>\<open>+\<close> when
  the other operand is a string).
\<close>

datatype jsval = JUndefined | JNull | JBool bool | JStr string

fun truthy :: "jsval \<Rightarrow> bool" where
  "truthy JUndefined = False"
| "truthy JNull = False"
| "truthy (JBool b) = b"
| "truthy (JStr s) = (s \<noteq> [])"

fun toStr :: "jsval \<Rightarrow> string" where
  "toStr JUndefined = ''undefined''"
| "toStr JNull = ''null''"
| "toStr (JBool b) = (if b then ''true'' else ''false'')"
| "toStr (JStr s) = s"

text \<open>\<^verbatim>\<open>a || b\<close>: the left operand when it is truthy, the right one otherwise.\<close>

definition jsOr :: "jsval \<Rightarrow> jsval \<Rightarrow> jsval" where
  "jsOr a b = (if truthy a then a else b)"

text \<open>Errors that the code under study can raise or pass on.\<close>

datatype js_error = TypeError | ReferenceError | SyntaxError | Thrown string

section \<open>BuildConfig (types/build-config, file unnamed/part_000)\<close>

text \<open>
  Only the \<^verbatim>\<open>tasks\<close> member of a build config takes part in task naming; the
  \<^verbatim>\<open>paths\<close> and \<^verbatim>\<open>less\<close> members are left out.
\<close>

record tasks_settings =
  defaultPrefixName :: jsval
  groupBeforeAction :: bool

record build_config =
  tasks :: tasks_settings

definition TASK_NAME_SEPARATOR :: string where
  "TASK_NAME_SEPARATOR = '':''"

text \<open>The constructor's defaults: no prefix, group name first.\<close>

definition BuildConfig :: build_config where
  "BuildConfig = \<lparr>tasks = \<lparr>defaultPrefixName = JBool False, groupBeforeAction = True\<rparr>\<rparr>"

text \<open>\<^verbatim>\<open>BuildConfig.prototype.createTaskName(groupName, actionName, prefixName)\<close>.\<close>

definition BuildConfig_createTaskName ::
  "build_config \<Rightarrow> jsval \<Rightarrow> jsval \<Rightarrow> jsval \<Rightarrow> string" where
  "BuildConfig_createTaskName this groupName actionName prefixName =
     (let prefix = jsOr prefixName (defaultPrefixName (tasks this));
          taskName =
            (if groupBeforeAction (tasks this)
             then toStr groupName @ TASK_NAME_SEPARATOR @ toStr actionName
             else toStr actionName @ TASK_NAME_SEPARATOR @ toStr groupName)
      in if truthy prefix then toStr prefix @ TASK_NAME_SEPARATOR @ taskName else taskName)"

section \<open>Plain objects used as dictionaries\<close>

text \<open>
  The task group keeps its actions in \<^verbatim>\<open>this._taskLoaders = {}\<close> and the group loader
  its cache in \<^verbatim>\<open>this._taskGroups = {}\<close>: ordinary objects, whose prototype is
  \<^verbatim>\<open>Object.prototype\<close>. Three facts of the language are therefore part of the program:
  \<^item> \<^verbatim>\<open>Object.keys\<close> and \<^verbatim>\<open>for ... in\<close> list the own keys that are array
    indices first, in ascending order, then the other keys in the order of their creation;
  \<^item> reading \<^verbatim>\<open>obj[name]\<close> for a name that is not an own key goes on to the prototype,
    so the member names of \<^verbatim>\<open>Object.prototype\<close> are never undefined;
  \<^item> assigning \<^verbatim>\<open>obj['__proto__']\<close> an object or function runs the setter inherited
    from \<^verbatim>\<open>Object.prototype\<close>: it replaces the prototype and creates no own key.
\<close>

definition isDigit :: "char \<Rightarrow> bool" where
  "isDigit c = (c \<in> set ''0123456789'')"

definition decimal :: "string \<Rightarrow> nat" where
  "decimal s = foldl (\<lambda>n c. 10 * n + (of_char c - 48)) 0 s"

text \<open>
  A key is an array index when it is the canonical decimal form of an integer below
  \<open>2\<^sup>3\<^sup>2 - 1\<close>.
\<close>

definition arrayIndex :: "string \<Rightarrow> nat option" where
  "arrayIndex s =
     (if s \<noteq> [] \<and> list_all isDigit s \<and> (s = ''0'' \<or> hd s \<noteq> CHR ''0'')
         \<and> decimal s < 4294967295
      then Some (decimal s) else None)"

fun insertIndex :: "nat \<Rightarrow> string \<Rightarrow> 'v \<Rightarrow> (string \<times> 'v) list \<Rightarrow> (string \<times> 'v) list" where
  "insertIndex i k v [] = [(k, v)]"
| "insertIndex i k v ((k', v') # ps) =
     (case arrayIndex k' of
        Some j \<Rightarrow> if j < i then (k', v') # insertIndex i k v ps else (k, v) # (k', v') # ps
      | None \<Rightarrow> (k, v) # (k', v') # ps)"

text \<open>Creating the own property \<open>k\<close>, which the object does not have yet.\<close>

definition createOwn :: "string \<Rightarrow> 'v \<Rightarrow> (string \<times> 'v) list \<Rightarrow> (string \<times> 'v) list" where
  "createOwn k v ps =
     (case arrayIndex k of Some i \<Rightarrow> insertIndex i k v ps | None \<Rightarrow> ps @ [(k, v)])"

text \<open>Writing the own property \<open>k\<close>: an existing key keeps its place.\<close>

definition putOwn :: "string \<Rightarrow> 'v \<Rightarrow> (string \<times> 'v) list \<Rightarrow> (string \<times> 'v) list" where
  "putOwn k v ps =
     (if k \<in> set (map fst ps)
      then map (\<lambda>(k', v'). if k' = k then (k', v) else (k', v')) ps
      else createOwn k v ps)"

text \<open>The member names of \<^verbatim>\<open>Object.prototype\<close> in Node.js.\<close>

definition objectPrototypeNames :: "string list" where
  "objectPrototypeNames =
     [''constructor'', ''__defineGetter__'', ''__defineSetter__'', ''hasOwnProperty'',
      ''__lookupGetter__'', ''__lookupSetter__'', ''isPrototypeOf'', ''propertyIsEnumerable'',
      ''toString'', ''valueOf'', ''__proto__'', ''toLocaleString'']"

section \<open>ActionDependency and GulpTaskGroup (types/task-group)\<close>

text \<open>
  The repository holds the module in two revisions. The definitions of this section follow
  the later one (file unnamed/part_005); the places where the earlier one (file
  types/task-group.js) differs are modelled in a subsection of their own.
\<close>

datatype action_dependency =
  ActionDependency (depGroupName: jsval) (depActionName: jsval)

text \<open>
  An entry of a dependency list is an action name of the same group or an
  \<^verbatim>\<open>ActionDependency\<close> object (\<^verbatim>\<open>stringOrActionDep\<close>).
\<close>

datatype dep = DepString string | DepObject action_dependency

text \<open>
  A task loader function is the closure that \<^verbatim>\<open>_createTaskLoaderFn\<close> returns: it holds
  the three arguments and is bound to the group, which it reads when it runs.
\<close>

record 'f task_loader =
  tlActionName :: string
  tlActionDeps :: "dep list"
  tlTaskFn :: 'f

text \<open>
  The object \<^verbatim>\<open>_taskLoaders\<close>: its own properties in enumeration order, and the task
  loader that has become its prototype through an assignment to \<^verbatim>\<open>__proto__\<close>
  (\<open>None\<close>: the prototype is still \<^verbatim>\<open>Object.prototype\<close>).
\<close>

record 'f registry =
  ownProps :: "(string \<times> 'f task_loader) list"
  protoLoader :: "'f task_loader option"

record 'f task_group =
  groupName :: jsval
  config :: build_config
  taskLoaders :: "'f registry"

text \<open>The constructor \<^verbatim>\<open>GulpTaskGroup(groupName, config)\<close>.\<close>

definition GulpTaskGroup :: "jsval \<Rightarrow> build_config \<Rightarrow> 'f task_group" where
  "GulpTaskGroup gn cfg =
     \<lparr>groupName = gn, config = cfg, taskLoaders = \<lparr>ownProps = [], protoLoader = None\<rparr>\<rparr>"

definition listActionNames :: "'f task_group \<Rightarrow> string list" where
  "listActionNames this = map fst (ownProps (taskLoaders this))"

definition getActionDep :: "'f task_group \<Rightarrow> jsval \<Rightarrow> action_dependency" where
  "getActionDep this actionName = ActionDependency (groupName this) actionName"

definition createTaskName :: "'f task_group \<Rightarrow> jsval \<Rightarrow> string" where
  "createTaskName this actionName =
     BuildConfig_createTaskName (config this) (groupName this) actionName JUndefined"

text \<open>\<^verbatim>\<open>a && b\<close>: the left operand when it is falsy, the right one otherwise.\<close>

definition jsAnd :: "jsval \<Rightarrow> jsval \<Rightarrow> jsval" where
  "jsAnd a b = (if truthy a then b else a)"

definition isExternalTo :: "action_dependency \<Rightarrow> 'f task_group \<Rightarrow> jsval" where
  "isExternalTo this gulpTaskGroup =
     jsAnd (depGroupName this) (JBool (depGroupName this \<noteq> groupName gulpTaskGroup))"

definition ActionDependency_createTaskName ::
  "action_dependency \<Rightarrow> 'f task_group \<Rightarrow> string" where
  "ActionDependency_createTaskName this gulpTaskGroup =
     (if truthy (isExternalTo this gulpTaskGroup)
      then BuildConfig_createTaskName (config gulpTaskGroup)
             (depGroupName this) (depActionName this) JUndefined
      else createTaskName gulpTaskGroup (depActionName this))"

fun resolveDepNames :: "'f task_group \<Rightarrow> dep list \<Rightarrow> string list" where
  "resolveDepNames this [] = []"
| "resolveDepNames this (DepObject d # deps) =
     ActionDependency_createTaskName d this # resolveDepNames this deps"
| "resolveDepNames this (DepString s # deps) =
     createTaskName this (JStr s) # resolveDepNames this deps"

text \<open>
  \<^verbatim>\<open>addAction\<close> reads its arguments by position: with two of them the dependency list
  is empty, otherwise the second is the list and the third the task function.
\<close>

datatype 'f add_args = Args2 string 'f | Args3 string "dep list" 'f

definition createTaskLoaderFn :: "string \<Rightarrow> dep list \<Rightarrow> 'f \<Rightarrow> 'f task_loader" where
  "createTaskLoaderFn actionName actionDeps taskFn =
     \<lparr>tlActionName = actionName, tlActionDeps = actionDeps, tlTaskFn = taskFn\<rparr>"

text \<open>
  The assignment \<^verbatim>\<open>this._taskLoaders[actionName] = loader\<close>. An own key is overwritten.
  Otherwise \<^verbatim>\<open>__proto__\<close> replaces the prototype by the loader; once the prototype is
  a (bound) function, the names of its read-only members cannot be assigned in strict mode;
  any other name becomes a new own key.
\<close>

definition readOnlyFunctionMembers :: "string list" where
  "readOnlyFunctionMembers = [''length'', ''name'', ''caller'', ''arguments'']"

definition putLoader ::
  "string \<Rightarrow> 'f task_loader \<Rightarrow> 'f registry \<Rightarrow> js_error + 'f registry" where
  "putLoader k l reg =
     (if k \<in> set (map fst (ownProps reg))
      then Inr (reg\<lparr>ownProps := putOwn k l (ownProps reg)\<rparr>)
      else if k = ''__proto__'' then Inr (reg\<lparr>protoLoader := Some l\<rparr>)
      else if protoLoader reg \<noteq> None \<and> k \<in> set readOnlyFunctionMembers then Inl TypeError
      else Inr (reg\<lparr>ownProps := putOwn k l (ownProps reg)\<rparr>))"

fun addAction :: "'f task_group \<Rightarrow> 'f add_args \<Rightarrow> js_error + 'f task_group" where
  "addAction this (Args2 actionName taskFn) =
     (case putLoader actionName (createTaskLoaderFn actionName [] taskFn) (taskLoaders this) of
        Inl e \<Rightarrow> Inl e
      | Inr reg \<Rightarrow> Inr (this\<lparr>taskLoaders := reg\<rparr>))"
| "addAction this (Args3 actionName actionDeps taskFn) =
     (case putLoader actionName (createTaskLoaderFn actionName actionDeps taskFn)
             (taskLoaders this) of
        Inl e \<Rightarrow> Inl e
      | Inr reg \<Rightarrow> Inr (this\<lparr>taskLoaders := reg\<rparr>))"

text \<open>
  What \<^verbatim>\<open>this._taskLoaders[actionName]\<close> evaluates to. With the prototype replaced by a
  task loader \<open>l\<close> the chain is \<open>l\<close>, \<^verbatim>\<open>Function.prototype\<close>,
  \<^verbatim>\<open>Object.prototype\<close>; \<^verbatim>\<open>__proto__\<close> reads the prototype itself.
\<close>

datatype 'f property =
    LoaderFn "'f task_loader"
  | ObjectBuiltin string
  | FunctionBuiltin string
  | NotCallable
  | Undefined

definition functionPrototypeMethods :: "string list" where
  "functionPrototypeMethods = [''apply'', ''bind'', ''call'', ''toString'', ''constructor'']"

definition getProp :: "'f registry \<Rightarrow> string \<Rightarrow> 'f property" where
  "getProp reg k =
     (case map_of (ownProps reg) k of
        Some l \<Rightarrow> LoaderFn l
      | None \<Rightarrow>
          (case protoLoader reg of
             None \<Rightarrow>
               if k = ''__proto__'' then NotCallable
               else if k \<in> set objectPrototypeNames then ObjectBuiltin k
               else Undefined
           | Some l \<Rightarrow>
               if k = ''__proto__'' then LoaderFn l
               else if k \<in> set readOnlyFunctionMembers then NotCallable
               else if k \<in> set functionPrototypeMethods then FunctionBuiltin k
               else if k \<in> set objectPrototypeNames then ObjectBuiltin k
               else Undefined))"

subsection \<open>The host\<close>

text \<open>
  Gulp is not part of the repository. The code uses one capability of it,
  \<^verbatim>\<open>gulp.task(name, deps, fn)\<close> or \<^verbatim>\<open>gulp.task(name, fn)\<close>, which changes the state
  of the host or throws. The method is a parameter \<open>task\<close> of every function that calls
  it, and the state of the host is passed along.
\<close>

datatype 'f task_call = Task3 string "string list" 'f | Task2 string 'f

type_synonym ('h, 'f) gulp_task = "'f task_call \<Rightarrow> 'h \<Rightarrow> js_error + 'h"

text \<open>
  The body of the task loader function in \<^verbatim>\<open>_createTaskLoaderFn\<close>, run for the group
  \<open>this\<close> it is bound to. It returns the task name it has registered.
\<close>

definition taskLoaderFn ::
  "('h, 'f) gulp_task \<Rightarrow> 'f task_group \<Rightarrow> 'f task_loader \<Rightarrow> 'h \<Rightarrow> js_error + (string \<times> 'h)" where
  "taskLoaderFn task this l gulp =
     (let taskName = createTaskName this (JStr (tlActionName l)) in
      if tlActionDeps l \<noteq> []
      then (let taskDeps = resolveDepNames this (tlActionDeps l) in
            case task (Task3 taskName taskDeps (tlTaskFn l)) gulp of
              Inl e \<Rightarrow> Inl e
            | Inr gulp' \<Rightarrow> Inr (taskName, gulp'))
      else (case task (Task2 taskName (tlTaskFn l)) gulp of
              Inl e \<Rightarrow> Inl e
            | Inr gulp' \<Rightarrow> Inr (taskName, gulp')))"

text \<open>
  What \<^verbatim>\<open>loadTask\<close> returns: the task name that a task loader has produced, or
  whatever a built-in member of \<^verbatim>\<open>Object.prototype\<close> returns when it is called on
  \<^verbatim>\<open>_taskLoaders\<close> with the host as its argument.
\<close>

datatype load_result = TaskName string | BuiltinResult string

text \<open>
  Calling an inherited member of \<^verbatim>\<open>Object.prototype\<close> as a method of
  \<^verbatim>\<open>_taskLoaders\<close> with an ordinary host object as argument.
  \<^verbatim>\<open>__defineGetter__\<close> and \<^verbatim>\<open>__defineSetter__\<close> reject the missing accessor
  function; \<^verbatim>\<open>toLocaleString\<close> calls \<^verbatim>\<open>this.toString()\<close>, which is a task loader
  run without a host when the name is an own key, and \<^verbatim>\<open>Function.prototype.toString\<close>
  on a non-function when the prototype has been replaced; the other members return.
\<close>

definition objectBuiltinCall ::
  "'f task_group \<Rightarrow> string \<Rightarrow> 'h \<Rightarrow> js_error + (load_result \<times> 'f task_group \<times> 'h)" where
  "objectBuiltinCall this k gulp =
     (if k = ''__defineGetter__'' \<or> k = ''__defineSetter__'' then Inl TypeError
      else if k = ''toLocaleString''
              \<and> (map_of (ownProps (taskLoaders this)) ''toString'' \<noteq> None
                  \<or> protoLoader (taskLoaders this) \<noteq> None)
      then Inl TypeError
      else Inr (BuiltinResult k, this, gulp))"

text \<open>
  \<^verbatim>\<open>loadTask\<close>: \<^verbatim>\<open>return this._taskLoaders[actionName](gulp)\<close>. The group is returned
  with the result, so that its state after the call can be compared with the one before.
\<close>

definition loadTask ::
  "('h, 'f) gulp_task \<Rightarrow> 'f task_group \<Rightarrow> string \<Rightarrow> 'h
     \<Rightarrow> js_error + (load_result \<times> 'f task_group \<times> 'h)" where
  "loadTask task this actionName gulp =
     (case getProp (taskLoaders this) actionName of
        LoaderFn l \<Rightarrow>
          (case taskLoaderFn task this l gulp of
             Inl e \<Rightarrow> Inl e
           | Inr (taskName, gulp') \<Rightarrow> Inr (TaskName taskName, this, gulp'))
      | ObjectBuiltin k \<Rightarrow> objectBuiltinCall this k gulp
      | FunctionBuiltin k \<Rightarrow> Inl (if k = ''constructor'' then SyntaxError else TypeError)
      | NotCallable \<Rightarrow> Inl TypeError
      | Undefined \<Rightarrow> Inl TypeError)"

text \<open>The loop of \<^verbatim>\<open>loadAllTasks\<close> over the enumerated keys, pushing each result.\<close>

fun loadAllTasks_loop ::
  "('h, 'f) gulp_task \<Rightarrow> 'f task_group \<Rightarrow> string list \<Rightarrow> 'h \<Rightarrow> load_result list
     \<Rightarrow> js_error + (load_result list \<times> 'f task_group \<times> 'h)" where
  "loadAllTasks_loop task this [] gulp taskNames = Inr (taskNames, this, gulp)"
| "loadAllTasks_loop task this (actionName # rest) gulp taskNames =
     (case loadTask task this actionName gulp of
        Inl e \<Rightarrow> Inl e
      | Inr (r, this', gulp') \<Rightarrow> loadAllTasks_loop task this' rest gulp' (taskNames @ [r]))"

definition loadAllTasks ::
  "('h, 'f) gulp_task \<Rightarrow> 'f task_group \<Rightarrow> 'h
     \<Rightarrow> js_error + (load_result list \<times> 'f task_group \<times> 'h)" where
  "loadAllTasks task this gulp =
     loadAllTasks_loop task this (map fst (ownProps (taskLoaders this))) gulp []"

subsection \<open>The tasks module function\<close>

text \<open>
  The callback \<^verbatim>\<open>addActionsFn(tasks, gulp)\<close> is code of the caller: it may change
  the group and the host, or throw. \<^verbatim>\<open>createTasksModule\<close> may be given none.
\<close>

type_synonym ('h, 'f) add_actions_fn =
  "'f task_group \<Rightarrow> 'h \<Rightarrow> js_error + ('f task_group \<times> 'h)"

text \<open>
  A tasks module function, \<^verbatim>\<open>function(gulp, lazyLoad, config)\<close>: the host with its
  \<^verbatim>\<open>task\<close> method, the flag, and a build config or \<^verbatim>\<open>undefined\<close>.
\<close>

type_synonym ('h, 'f) tasks_module_fn =
  "('h, 'f) gulp_task \<Rightarrow> 'h \<Rightarrow> jsval \<Rightarrow> build_config option
     \<Rightarrow> js_error + ('f task_group \<times> 'h)"

text \<open>
  \<^verbatim>\<open>GulpTaskGroup.createTasksModule(groupName, addActionsFn)\<close>. The shared config that
  \<^verbatim>\<open>require('../shared/config')\<close> yields is the parameter \<open>sharedConfig\<close>.
\<close>

definition createTasksModule ::
  "build_config \<Rightarrow> jsval \<Rightarrow> ('h, 'f) add_actions_fn option \<Rightarrow> ('h, 'f) tasks_module_fn" where
  "createTasksModule sharedConfig gn addActionsFn task gulp lazyLoad cfg =
     (let cfg' = (case cfg of None \<Rightarrow> sharedConfig | Some c \<Rightarrow> c);
          tasks = GulpTaskGroup gn cfg'
      in case (case addActionsFn of None \<Rightarrow> Inr (tasks, gulp) | Some f \<Rightarrow> f tasks gulp) of
           Inl e \<Rightarrow> Inl e
         | Inr (tasks', gulp') \<Rightarrow>
             if \<not> truthy lazyLoad
             then (case loadAllTasks task tasks' gulp' of
                     Inl e \<Rightarrow> Inl e
                   | Inr (taskNames, tasks'', gulp'') \<Rightarrow> Inr (tasks'', gulp''))
             else Inr (tasks', gulp'))"

text \<open>
  A call with four arguments, as the Jasmine specs make it
  (\<^verbatim>\<open>tasksModuleFn(gulp, groupName, config, lazyload)\<close>): a JavaScript function of three
  parameters binds the first three and drops the fourth.
\<close>

definition callWithFourArguments ::
  "('h, 'f) tasks_module_fn \<Rightarrow> ('h, 'f) gulp_task \<Rightarrow> 'h \<Rightarrow> jsval \<Rightarrow> build_config option \<Rightarrow> jsval
     \<Rightarrow> js_error + ('f task_group \<times> 'h)" where
  "callWithFourArguments tasksModuleFn task gulp arg2 arg3 arg4 = tasksModuleFn task gulp arg2 arg3"

text \<open>
  The callback of the specs and of the task modules: a sequence of \<^verbatim>\<open>tasks.addAction\<close>
  calls, which leaves the host alone.
\<close>

fun addActions :: "'f add_args list \<Rightarrow> ('h, 'f) add_actions_fn" where
  "addActions [] tg gulp = Inr (tg, gulp)"
| "addActions (a # as) tg gulp =
     (case addAction tg a of Inl e \<Rightarrow> Inl e | Inr tg' \<Rightarrow> addActions as tg' gulp)"

subsection \<open>The earlier revision (file types/task-group.js)\<close>

text \<open>
  The repository holds an earlier revision of the same module. It differs from the one
  above in the places modelled here: its task loader function has no \<^verbatim>\<open>return\<close>, its
  \<^verbatim>\<open>loadTask\<close> and \<^verbatim>\<open>loadAllTasks\<close> make the same calls and return nothing, and its
  tasks module function tests \<^verbatim>\<open>lazyload\<close>, an identifier that is declared nowhere
  (the parameter is \<^verbatim>\<open>lazyLoad\<close>), so that evaluating the test throws.
\<close>

definition loadTask0 ::
  "('h, 'f) gulp_task \<Rightarrow> 'f task_group \<Rightarrow> string \<Rightarrow> 'h
     \<Rightarrow> js_error + (jsval \<times> 'f task_group \<times> 'h)" where
  "loadTask0 task this actionName gulp =
     (case loadTask task this actionName gulp of
        Inl e \<Rightarrow> Inl e
      | Inr (r, this', gulp') \<Rightarrow> Inr (JUndefined, this', gulp'))"

fun loadAllTasks0_loop ::
  "('h, 'f) gulp_task \<Rightarrow> 'f task_group \<Rightarrow> string list \<Rightarrow> 'h
     \<Rightarrow> js_error + (jsval \<times> 'f task_group \<times> 'h)" where
  "loadAllTasks0_loop task this [] gulp = Inr (JUndefined, this, gulp)"
| "loadAllTasks0_loop task this (actionName # rest) gulp =
     (case loadTask0 task this actionName gulp of
        Inl e \<Rightarrow> Inl e
      | Inr (r, this', gulp') \<Rightarrow> loadAllTasks0_loop task this' rest gulp')"

definition loadAllTasks0 ::
  "('h, 'f) gulp_task \<Rightarrow> 'f task_group \<Rightarrow> 'h \<Rightarrow> js_error + (jsval \<times> 'f task_group \<times> 'h)" where
  "loadAllTasks0 task this gulp =
     loadAllTasks0_loop task this (map fst (ownProps (taskLoaders this))) gulp"

definition createTasksModule0 ::
  "build_config \<Rightarrow> jsval \<Rightarrow> ('h, 'f) add_actions_fn option \<Rightarrow> ('h, 'f) tasks_module_fn" where
  "createTasksModule0 sharedConfig gn addActionsFn task gulp lazyLoad cfg =
     (let cfg' = (case cfg of None \<Rightarrow> sharedConfig | Some c \<Rightarrow> c);
          tasks = GulpTaskGroup gn cfg'
      in case (case addActionsFn of None \<Rightarrow> Inr (tasks, gulp) | Some f \<Rightarrow> f tasks gulp) of
           Inl e \<Rightarrow> Inl e
         | Inr (tasks', gulp') \<Rightarrow> Inl ReferenceError)"

section \<open>GroupLoader (types/group-loader, file unnamed/part_001)\<close>

text \<open>
  The loader's \<^verbatim>\<open>gulp\<close> member is the host, passed along as above; its \<^verbatim>\<open>config\<close>
  member is the field \<open>loaderConfig\<close>, and \<^verbatim>\<open>_taskGroups\<close> is the list of the own
  properties of the cache object, whose prototype stays \<^verbatim>\<open>Object.prototype\<close>.
\<close>

record 'f group_loader =
  loaderConfig :: build_config
  modulesDir :: string
  taskGroups :: "(string \<times> 'f task_group) list"

definition GroupLoader :: "string \<Rightarrow> build_config \<Rightarrow> string option \<Rightarrow> 'f group_loader" where
  "GroupLoader TASK_MODULES_DIR cfg dir =
     \<lparr>loaderConfig = cfg,
      modulesDir = (case dir of None \<Rightarrow> TASK_MODULES_DIR
                    | Some d \<Rightarrow> if d = [] then TASK_MODULES_DIR else d),
      taskGroups = []\<rparr>"

definition getModuleName :: "'f group_loader \<Rightarrow> string \<Rightarrow> string" where
  "getModuleName this gn = modulesDir this @ gn @ ''-tasks''"

text \<open>
  What \<^verbatim>\<open>getTaskGroup\<close> returns: a task group, or the member of
  \<^verbatim>\<open>Object.prototype\<close> that \<^verbatim>\<open>this._taskGroups[groupName]\<close> has read.
\<close>

datatype 'f cached = Group "'f task_group" | InheritedMember string

text \<open>
  \<^verbatim>\<open>getTaskGroup\<close>. Node's \<^verbatim>\<open>require\<close> is the parameter \<open>require\<close>: it yields the
  tasks module function that a module exports, or throws. A task group and every member
  of \<^verbatim>\<open>Object.prototype\<close> is truthy, so that only an undefined read loads a module.
\<close>

definition getTaskGroup ::
  "(string \<Rightarrow> js_error + ('h, 'f) tasks_module_fn) \<Rightarrow> ('h, 'f) gulp_task
     \<Rightarrow> 'f group_loader \<Rightarrow> string \<Rightarrow> 'h \<Rightarrow> js_error + ('f cached \<times> 'f group_loader \<times> 'h)" where
  "getTaskGroup require task this gn gulp =
     (case map_of (taskGroups this) gn of
        Some taskGroup \<Rightarrow> Inr (Group taskGroup, this, gulp)
      | None \<Rightarrow>
          if gn \<in> set objectPrototypeNames then Inr (InheritedMember gn, this, gulp)
          else (case require (getModuleName this gn) of
                  Inl e \<Rightarrow> Inl e
                | Inr tasksModuleFn \<Rightarrow>
                    (case tasksModuleFn task gulp (JBool True) (Some (loaderConfig this)) of
                       Inl e \<Rightarrow> Inl e
                     | Inr (taskGroup, gulp') \<Rightarrow>
                         Inr (Group taskGroup,
                              this\<lparr>taskGroups := putOwn gn taskGroup (taskGroups this)\<rparr>,
                              gulp'))))"

definition loadedTaskGroups :: "'f group_loader \<Rightarrow> string list" where
  "loadedTaskGroups this = map fst (taskGroups this)"

section \<open>Notions used to state the properties\<close>

text \<open>
  Every entry that \<^verbatim>\<open>addAction\<close> writes holds a task loader made for the key it is
  stored under, and an object has each own key once. A registry with these two properties
  is called well formed; the registry of a new group is, and \<^verbatim>\<open>addAction\<close> keeps it so
  (lemmas \<open>wellFormed_GulpTaskGroup\<close> and \<open>wellFormed_addAction\<close> below).
\<close>

definition wellFormed :: "'f task_group \<Rightarrow> bool" where
  "wellFormed g =
     (distinct (map fst (ownProps (taskLoaders g)))
      \<and> list_all (\<lambda>(k, l). tlActionName l = k) (ownProps (taskLoaders g)))"

text \<open>The call of \<^verbatim>\<open>gulp.task\<close> that the task loader \<open>l\<close> makes for the group \<open>g\<close>.\<close>

definition registration :: "'f task_group \<Rightarrow> 'f task_loader \<Rightarrow> 'f task_call" where
  "registration g l =
     (if tlActionDeps l \<noteq> []
      then Task3 (createTaskName g (JStr (tlActionName l))) (resolveDepNames g (tlActionDeps l))
             (tlTaskFn l)
      else Task2 (createTaskName g (JStr (tlActionName l))) (tlTaskFn l))"

text \<open>A sequence of calls of \<^verbatim>\<open>gulp.task\<close>, which stops at the first one that throws.\<close>

fun registerAll :: "('h, 'f) gulp_task \<Rightarrow> 'f task_call list \<Rightarrow> 'h \<Rightarrow> js_error + 'h" where
  "registerAll task [] gulp = Inr gulp"
| "registerAll task (c # cs) gulp =
     (case task c gulp of Inl e \<Rightarrow> Inl e | Inr gulp' \<Rightarrow> registerAll task cs gulp')"

text \<open>
  A host for the examples: it records every call of \<^verbatim>\<open>gulp.task\<close>, latest first, and
  never throws.
\<close>

definition recordingHost :: "('f task_call list, 'f) gulp_task" where
  "recordingHost c calls = Inr (c # calls)"

text \<open>The action name and the task loader that a call of \<^verbatim>\<open>addAction\<close> stores.\<close>

fun argsActionName :: "'f add_args \<Rightarrow> string" where
  "argsActionName (Args2 actionName taskFn) = actionName"
| "argsActionName (Args3 actionName actionDeps taskFn) = actionName"

fun argsLoader :: "'f add_args \<Rightarrow> 'f task_loader" where
  "argsLoader (Args2 actionName taskFn) = createTaskLoaderFn actionName [] taskFn"
| "argsLoader (Args3 actionName actionDeps taskFn) =
     createTaskLoaderFn actionName actionDeps taskFn"

text \<open>
  The group of the examples: \<^verbatim>\<open>less\<close> with the default config, an action
  \<^verbatim>\<open>build\<close> that depends on \<^verbatim>\<open>copy\<close> of the group \<^verbatim>\<open>fonts\<close> and on its own
  \<^verbatim>\<open>clean\<close>, and an action \<^verbatim>\<open>hint\<close> without dependencies. Task functions are
  opaque; the examples use strings in their place.
\<close>

definition exampleActions :: "string add_args list" where
  "exampleActions =
     [Args3 ''build'' [DepObject (ActionDependency (JStr ''fonts'') (JStr ''copy'')),
                        DepString ''clean''] ''buildFn'',
      Args2 ''hint'' ''hintFn'']"

definition exampleGroup :: "string task_group" where
  "exampleGroup =
     \<lparr>groupName = JStr ''less'', config = BuildConfig,
      taskLoaders =
        \<lparr>ownProps =
           [(''build'',
             \<lparr>tlActionName = ''build'',
              tlActionDeps = [DepObject (ActionDependency (JStr ''fonts'') (JStr ''copy'')),
                              DepString ''clean''],
              tlTaskFn = ''buildFn''\<rparr>),
            (''hint'', \<lparr>tlActionName = ''hint'', tlActionDeps = [], tlTaskFn = ''hintFn''\<rparr>)],
         protoLoader = None\<rparr>\<rparr>"

section \<open>The naming policy\<close>

text \<open>
  C1. \<^verbatim>\<open>BuildConfig.createTaskName\<close>: the effective prefix is the explicit prefix if it
  is truthy and \<^verbatim>\<open>tasks.defaultPrefixName\<close> otherwise; the core pair is group, separator,
  action if \<^verbatim>\<open>tasks.groupBeforeAction\<close> holds and action, separator, group otherwise; the
  result is the effective prefix, the separator and the core pair if the effective prefix is
  truthy, and the core pair alone otherwise.
\<close>

theorem createTaskName_naming_policy:
  "BuildConfig_createTaskName cfg gn an prefixName =
     (let effectivePrefix =
            (if truthy prefixName then prefixName else defaultPrefixName (tasks cfg));
          corePair =
            (if groupBeforeAction (tasks cfg) then toStr gn @ '':'' @ toStr an
             else toStr an @ '':'' @ toStr gn)
      in if truthy effectivePrefix then toStr effectivePrefix @ '':'' @ corePair else corePair)"
  by (simp add: BuildConfig_createTaskName_def jsOr_def TASK_NAME_SEPARATOR_def Let_def)

theorem createTaskName_naming_policy_witness:
  "BuildConfig_createTaskName BuildConfig (JStr ''less'') (JStr ''build'') JUndefined
     = ''less:build''
   \<and> BuildConfig_createTaskName
       \<lparr>tasks = \<lparr>defaultPrefixName = JStr ''foobar'', groupBeforeAction = False\<rparr>\<rparr>
       (JStr ''less'') (JStr ''build'') JUndefined = ''foobar:build:less''
   \<and> BuildConfig_createTaskName
       \<lparr>tasks = \<lparr>defaultPrefixName = JStr ''foobar'', groupBeforeAction = True\<rparr>\<rparr>
       (JStr ''less'') (JStr ''build'') (JStr ''p'') = ''p:less:build''"
  using createTaskName_naming_policy [of BuildConfig "JStr ''less''" "JStr ''build''" JUndefined]
    createTaskName_naming_policy
      [of "\<lparr>tasks = \<lparr>defaultPrefixName = JStr ''foobar'', groupBeforeAction = False\<rparr>\<rparr>"
          "JStr ''less''" "JStr ''build''" JUndefined]
    createTaskName_naming_policy
      [of "\<lparr>tasks = \<lparr>defaultPrefixName = JStr ''foobar'', groupBeforeAction = True\<rparr>\<rparr>"
          "JStr ''less''" "JStr ''build''" "JStr ''p''"]
  by (simp add: BuildConfig_def)

section \<open>Action dependencies\<close>

text \<open>
  C2. An action dependency \<open>d\<close> resolved against a group \<open>g\<close>: if the group name of
  \<open>d\<close> is truthy and differs from the name of \<open>g\<close>, the result is the naming policy
  of \<open>g\<close>'s config applied to \<open>d\<close>'s own group and action names; otherwise it is
  \<open>g\<close>'s \<^verbatim>\<open>createTaskName\<close> of \<open>d\<close>'s action name, which is built from the name of
  \<open>g\<close>.
\<close>

theorem ActionDependency_createTaskName_resolution:
  "ActionDependency_createTaskName d g =
     (if truthy (depGroupName d) \<and> depGroupName d \<noteq> groupName g
      then BuildConfig_createTaskName (config g) (depGroupName d) (depActionName d) JUndefined
      else createTaskName g (depActionName d))
   \<and> createTaskName g (depActionName d) =
       BuildConfig_createTaskName (config g) (groupName g) (depActionName d) JUndefined"
  by (simp add: ActionDependency_createTaskName_def isExternalTo_def jsAnd_def
      createTaskName_def)

theorem ActionDependency_createTaskName_resolution_witness:
  "ActionDependency_createTaskName (ActionDependency (JStr ''fonts'') (JStr ''copy''))
     (GulpTaskGroup (JStr ''less'') BuildConfig :: unit task_group) = ''fonts:copy''
   \<and> ActionDependency_createTaskName (ActionDependency JUndefined (JStr ''clean''))
       (GulpTaskGroup (JStr ''less'') BuildConfig :: unit task_group) = ''less:clean''
   \<and> ActionDependency_createTaskName (ActionDependency (JStr ''less'') (JStr ''clean''))
       (GulpTaskGroup (JStr ''less'') BuildConfig :: unit task_group) = ''less:clean''"
  using ActionDependency_createTaskName_resolution
      [of "ActionDependency (JStr ''fonts'') (JStr ''copy'')"
          "GulpTaskGroup (JStr ''less'') BuildConfig :: unit task_group"]
    ActionDependency_createTaskName_resolution
      [of "ActionDependency JUndefined (JStr ''clean'')"
          "GulpTaskGroup (JStr ''less'') BuildConfig :: unit task_group"]
    ActionDependency_createTaskName_resolution
      [of "ActionDependency (JStr ''less'') (JStr ''clean'')"
          "GulpTaskGroup (JStr ''less'') BuildConfig :: unit task_group"]
  by (simp add: GulpTaskGroup_def BuildConfig_def BuildConfig_createTaskName_def jsOr_def
      TASK_NAME_SEPARATOR_def)

section \<open>Own properties: facts about \<open>putOwn\<close>\<close>

lemma set_insertIndex: "set (insertIndex i k v ps) = insert (k, v) (set ps)"
  by (induction ps) (auto split: option.splits if_splits)

lemma distinct_insertIndex:
  "k \<notin> fst ` set ps \<Longrightarrow> distinct (map fst ps)
     \<Longrightarrow> distinct (map fst (insertIndex i k v ps))"
proof (induction ps)
  case Nil
  then show ?case by simp
next
  case (Cons p ps)
  obtain k' v' where p: "p = (k', v')" by (cases p)
  from Cons.prems have "k' \<noteq> k" and "k' \<notin> fst ` set ps" by (auto simp: p)
  then have "k' \<notin> fst ` set (insertIndex i k v ps)"
    by (simp add: set_insertIndex)
  then show ?case
    using Cons by (auto simp: p split: option.splits)
qed

lemma map_of_insertIndex:
  "k \<notin> fst ` set ps \<Longrightarrow>
     map_of (insertIndex i k v ps) k' = (if k' = k then Some v else map_of ps k')"
  by (induction ps) (auto split: option.splits)

lemma map_of_append_new:
  "k \<notin> fst ` set ps \<Longrightarrow>
     map_of (ps @ [(k, v)]) k' = (if k' = k then Some v else map_of ps k')"
  by (induction ps) auto

lemma map_of_overwrite:
  "map_of (map (\<lambda>(k', v'). if k' = k then (k', v) else (k', v')) ps) k'
     = (if k' = k then (if k \<in> fst ` set ps then Some v else None) else map_of ps k')"
proof (induction ps)
  case Nil
  then show ?case by simp
next
  case (Cons p ps)
  obtain a b where p: "p = (a, b)" by (cases p)
  show ?case using Cons.IH by (cases "a = k") (auto simp: p image_iff, force+)
qed

lemma keys_overwrite:
  "map fst (map (\<lambda>(k', v'). if k' = k then (k', v) else (k', v')) ps) = map fst ps"
  by (induction ps) auto

lemma set_overwrite:
  "set (map (\<lambda>(k', v'). if k' = k then (k', v) else (k', v')) ps) \<subseteq> insert (k, v) (set ps)"
  by (auto split: if_splits)

text \<open>Reading after writing: the key written holds the new value, the others are as before.\<close>

lemma map_of_putOwn:
  "map_of (putOwn k v ps) k' = (if k' = k then Some v else map_of ps k')"
proof (cases "k \<in> fst ` set ps")
  case True
  then show ?thesis unfolding putOwn_def by (simp add: map_of_overwrite)
next
  case False
  show ?thesis
  proof (cases "arrayIndex k")
    case None
    with False have "putOwn k v ps = ps @ [(k, v)]" by (simp add: putOwn_def createOwn_def)
    then show ?thesis using map_of_append_new [OF False] by simp
  next
    case (Some i)
    with False have "putOwn k v ps = insertIndex i k v ps"
      by (simp add: putOwn_def createOwn_def)
    then show ?thesis using map_of_insertIndex [OF False] by simp
  qed
qed

text \<open>An object has each own key once.\<close>

lemma distinct_putOwn:
  assumes "distinct (map fst ps)"
  shows "distinct (map fst (putOwn k v ps))"
proof (cases "k \<in> fst ` set ps")
  case True
  then have "map fst (putOwn k v ps) = map fst ps"
    unfolding putOwn_def using keys_overwrite [of k v ps] by simp
  then show ?thesis using assms by simp
next
  case False
  then show ?thesis
    using assms distinct_insertIndex [OF False assms]
    by (simp add: putOwn_def createOwn_def split: option.splits)
qed

lemma set_putOwn: "set (putOwn k v ps) \<subseteq> insert (k, v) (set ps)"
proof (cases "k \<in> fst ` set ps")
  case True
  then have "putOwn k v ps = map (\<lambda>(k', v'). if k' = k then (k', v) else (k', v')) ps"
    by (simp add: putOwn_def)
  then show ?thesis using set_overwrite [of k v ps] by simp
next
  case False
  then show ?thesis
    by (auto simp: putOwn_def createOwn_def set_insertIndex split: option.splits)
qed

lemma key_in_putOwn: "k \<in> set (map fst (putOwn k v ps))"
proof -
  have "map_of (putOwn k v ps) k = Some v" by (simp add: map_of_putOwn)
  then have "(k, v) \<in> set (putOwn k v ps)" by (rule map_of_SomeD)
  then show ?thesis by force
qed

lemma count_list_distinct: "distinct xs \<Longrightarrow> x \<in> set xs \<Longrightarrow> count_list xs x = 1"
  by (induction xs) auto

lemma count_putOwn:
  assumes "distinct (map fst ps)"
  shows "count_list (map fst (putOwn k v ps)) k = 1"
proof -
  have d: "distinct (map fst (putOwn k v ps))" using assms by (rule distinct_putOwn)
  from d key_in_putOwn [of k v ps] show ?thesis
    by (rule count_list_distinct)
qed

lemma arrayIndex_nondigit: "\<not> isDigit c \<Longrightarrow> arrayIndex (c # s) = None"
  by (simp add: arrayIndex_def)

section \<open>Task groups\<close>

subsection \<open>Well-formed registries\<close>

lemma wellFormed_GulpTaskGroup: "wellFormed (GulpTaskGroup gn cfg)"
  by (simp add: wellFormed_def GulpTaskGroup_def)

lemma wellFormed_putLoader:
  assumes wf: "wellFormed g" and name: "tlActionName l = k"
    and put: "putLoader k l (taskLoaders g) = Inr reg"
  shows "wellFormed (g\<lparr>taskLoaders := reg\<rparr>)"
proof -
  let ?ps = "ownProps (taskLoaders g)"
  have d: "distinct (map fst ?ps)" and a: "\<forall>(k', l') \<in> set ?ps. tlActionName l' = k'"
    using wf by (auto simp: wellFormed_def list_all_iff)
  have "ownProps reg = putOwn k l ?ps \<or> ownProps reg = ?ps"
    using put by (auto simp: putLoader_def split: if_splits)
  then show ?thesis
  proof
    assume eq: "ownProps reg = putOwn k l ?ps"
    have "\<forall>(k', l') \<in> set (putOwn k l ?ps). tlActionName l' = k'"
      using a name set_putOwn [of k l ?ps] by auto
    then show ?thesis
      using d by (simp add: wellFormed_def list_all_iff eq distinct_putOwn)
  next
    assume "ownProps reg = ?ps"
    then show ?thesis using wf by (simp add: wellFormed_def)
  qed
qed

lemma addAction_putLoader:
  "addAction g a =
     (case putLoader (argsActionName a) (argsLoader a) (taskLoaders g) of
        Inl e \<Rightarrow> Inl e
      | Inr reg \<Rightarrow> Inr (g\<lparr>taskLoaders := reg\<rparr>))"
  by (cases a) simp_all

lemma argsLoader_name: "tlActionName (argsLoader a) = argsActionName a"
  by (cases a) (simp_all add: createTaskLoaderFn_def)

lemma wellFormed_addAction:
  "wellFormed g \<Longrightarrow> addAction g a = Inr g' \<Longrightarrow> wellFormed g'"
  by (auto simp: addAction_putLoader split: sum.splits
      intro: wellFormed_putLoader [OF _ argsLoader_name])

lemma wellFormed_addActions:
  "wellFormed g \<Longrightarrow> addActions as g gulp = Inr (g', gulp') \<Longrightarrow> wellFormed g'"
proof (induction as arbitrary: g)
  case Nil
  then show ?case by simp
next
  case (Cons a as)
  then show ?case
    by (auto split: sum.splits dest: wellFormed_addAction)
qed

lemma wellFormed_own:
  assumes "wellFormed g" and "(k, l) \<in> set (ownProps (taskLoaders g))"
  shows "map_of (ownProps (taskLoaders g)) k = Some l" and "tlActionName l = k"
  using assms by (auto simp: wellFormed_def list_all_iff)

lemma addAction_fields:
  "addAction g a = Inr g' \<Longrightarrow> groupName g' = groupName g \<and> config g' = config g"
  by (auto simp: addAction_putLoader split: sum.splits)

lemma addActions_fields:
  "addActions as g gulp = Inr (g', gulp') \<Longrightarrow>
     groupName g' = groupName g \<and> config g' = config g \<and> gulp' = gulp"
proof (induction as arbitrary: g)
  case Nil
  then show ?case by simp
next
  case (Cons a as)
  then show ?case
    by (auto split: sum.splits dest!: addAction_fields)
qed

subsection \<open>The example group\<close>

lemma exampleGroup_built:
  "addActions exampleActions (GulpTaskGroup (JStr ''less'') BuildConfig) gulp
     = Inr (exampleGroup, gulp)"
  by (simp add: exampleActions_def exampleGroup_def GulpTaskGroup_def putLoader_def
      putOwn_def createOwn_def createTaskLoaderFn_def arrayIndex_nondigit isDigit_def)

lemma exampleGroup_wellFormed: "wellFormed exampleGroup"
  by (simp add: wellFormed_def exampleGroup_def)

lemma example_loadTask_build:
  "loadTask recordingHost exampleGroup ''build'' [] =
     Inr (TaskName ''less:build'', exampleGroup,
          [Task3 ''less:build'' [''fonts:copy'', ''less:clean''] ''buildFn''])"
  by (simp add: loadTask_def getProp_def taskLoaderFn_def recordingHost_def Let_def
      ActionDependency_createTaskName_def isExternalTo_def jsAnd_def
      createTaskName_def exampleGroup_def BuildConfig_def
      BuildConfig_createTaskName_def jsOr_def TASK_NAME_SEPARATOR_def)

lemma example_loadTask_hint:
  "loadTask recordingHost exampleGroup ''hint'' gulp =
     Inr (TaskName ''less:hint'', exampleGroup, Task2 ''less:hint'' ''hintFn'' # gulp)"
  by (simp add: loadTask_def getProp_def taskLoaderFn_def recordingHost_def Let_def
      createTaskName_def exampleGroup_def BuildConfig_def
      BuildConfig_createTaskName_def jsOr_def TASK_NAME_SEPARATOR_def)

lemma example_keys: "map fst (ownProps (taskLoaders exampleGroup)) = [''build'', ''hint'']"
  by (simp add: exampleGroup_def)

lemma example_loadAllTasks:
  "loadAllTasks recordingHost exampleGroup [] =
     Inr ([TaskName ''less:build'', TaskName ''less:hint''], exampleGroup,
          [Task2 ''less:hint'' ''hintFn'',
           Task3 ''less:build'' [''fonts:copy'', ''less:clean''] ''buildFn''])"
  by (simp add: loadAllTasks_def example_keys example_loadTask_build example_loadTask_hint)

subsection \<open>Loading one action\<close>

lemma taskLoaderFn_registration:
  "taskLoaderFn task g l gulp =
     (case task (registration g l) gulp of
        Inl e \<Rightarrow> Inl e
      | Inr gulp' \<Rightarrow> Inr (createTaskName g (JStr (tlActionName l)), gulp'))"
  by (simp add: taskLoaderFn_def registration_def Let_def)

lemma registration_name:
  "(\<exists>deps. registration g l = Task3 (createTaskName g (JStr (tlActionName l))) deps (tlTaskFn l))
   \<or> registration g l = Task2 (createTaskName g (JStr (tlActionName l))) (tlTaskFn l)"
  by (simp add: registration_def)

lemma loadTask_own:
  assumes "map_of (ownProps (taskLoaders g)) a = Some l"
  shows "loadTask task g a gulp =
     (case task (registration g l) gulp of
        Inl e \<Rightarrow> Inl e
      | Inr gulp' \<Rightarrow> Inr (TaskName (createTaskName g (JStr (tlActionName l))), g, gulp'))"
  using assms
  by (simp add: loadTask_def getProp_def taskLoaderFn_registration split: sum.splits)

text \<open>
  In the later revision, \<^verbatim>\<open>loadTask\<close> of a registered action makes the one call
  of \<^verbatim>\<open>gulp.task\<close> that registers the action under its task name; it passes on what the
  host throws, and otherwise returns that task name, which is \<^verbatim>\<open>createTaskName\<close> of the
  action name.
\<close>

lemma loadTask_registered:
  assumes "wellFormed g" and "actionName \<in> set (listActionNames g)"
  shows "\<exists>l. map_of (ownProps (taskLoaders g)) actionName = Some l
     \<and> tlActionName l = actionName
     \<and> loadTask task g actionName gulp =
         (case task (registration g l) gulp of
            Inl e \<Rightarrow> Inl e
          | Inr gulp' \<Rightarrow> Inr (TaskName (createTaskName g (JStr actionName)), g, gulp'))"
proof -
  from assms(2) obtain l where mem: "(actionName, l) \<in> set (ownProps (taskLoaders g))"
    by (auto simp: listActionNames_def)
  have own: "map_of (ownProps (taskLoaders g)) actionName = Some l"
    and name: "tlActionName l = actionName"
    using wellFormed_own [OF assms(1) mem] by simp_all
  show ?thesis
    using own name loadTask_own [OF own, of task gulp] by auto
qed

text \<open>
  C4. For every task group and every action name in its registry, \<^verbatim>\<open>loadTask\<close>
  registers the task with the host and returns the generated task name, which is
  \<^verbatim>\<open>createTaskName\<close> of the action name. The later revision does so
  (lemma \<open>loadTask_registered\<close>). The earlier revision has no
  \<^verbatim>\<open>return\<close>, neither in the task loader function nor in \<^verbatim>\<open>loadTask\<close>: for the
  action \<^verbatim>\<open>build\<close> of the example group it registers \<^verbatim>\<open>less:build\<close> and returns
  \<^verbatim>\<open>undefined\<close>.
\<close>

theorem loadTask0_returns_undefined:
  "''build'' \<in> set (listActionNames exampleGroup)
   \<and> createTaskName exampleGroup (JStr ''build'') = ''less:build''
   \<and> loadTask0 recordingHost exampleGroup ''build'' [] =
       Inr (JUndefined, exampleGroup,
            [Task3 ''less:build'' [''fonts:copy'', ''less:clean''] ''buildFn''])"
proof -
  have "createTaskName exampleGroup (JStr ''build'') = ''less:build''"
    by (simp add: createTaskName_def exampleGroup_def BuildConfig_def
        BuildConfig_createTaskName_def jsOr_def TASK_NAME_SEPARATOR_def)
  then show ?thesis
    by (simp add: loadTask0_def example_loadTask_build listActionNames_def example_keys)
qed

subsection \<open>Loading all actions\<close>

lemma loadAllTasks_loop_own:
  assumes "\<forall>(k, l) \<in> set ps. map_of (ownProps (taskLoaders g)) k = Some l"
  shows "loadAllTasks_loop task g (map fst ps) gulp acc =
     (case registerAll task (map (\<lambda>(k, l). registration g l) ps) gulp of
        Inl e \<Rightarrow> Inl e
      | Inr gulp' \<Rightarrow>
          Inr (acc @ map (\<lambda>(k, l). TaskName (createTaskName g (JStr (tlActionName l)))) ps,
               g, gulp'))"
  using assms
proof (induction ps arbitrary: gulp acc)
  case Nil
  then show ?case by simp
next
  case (Cons p ps)
  obtain k l where p: "p = (k, l)" by (cases p)
  from Cons.prems p have own: "map_of (ownProps (taskLoaders g)) k = Some l" by simp
  from Cons.prems have rest: "\<forall>(k, l) \<in> set ps. map_of (ownProps (taskLoaders g)) k = Some l"
    by simp
  show ?case
    using Cons.IH [OF rest] by (simp add: p loadTask_own [OF own] split: sum.splits)
qed

text \<open>
  In the later revision, \<^verbatim>\<open>loadAllTasks\<close> registers the actions in the order of
  enumeration, one call of \<^verbatim>\<open>gulp.task\<close> for each, and returns as many task names as
  the registry has entries: for each action name its \<^verbatim>\<open>createTaskName\<close>.
\<close>

lemma loadAllTasks_registered:
  assumes "wellFormed g"
  shows "loadAllTasks task g gulp =
     (case registerAll task (map (\<lambda>(k, l). registration g l) (ownProps (taskLoaders g))) gulp of
        Inl e \<Rightarrow> Inl e
      | Inr gulp' \<Rightarrow>
          Inr (map (\<lambda>a. TaskName (createTaskName g (JStr a))) (listActionNames g), g, gulp'))
   \<and> length (map (\<lambda>a. TaskName (createTaskName g (JStr a))) (listActionNames g))
       = length (ownProps (taskLoaders g))"
proof -
  let ?ps = "ownProps (taskLoaders g)"
  have all: "\<forall>(k, l) \<in> set ?ps. map_of ?ps k = Some l"
    using wellFormed_own(1) [OF assms] by auto
  have names: "map (\<lambda>(k, l). TaskName (createTaskName g (JStr (tlActionName l)))) ?ps
      = map (\<lambda>a. TaskName (createTaskName g (JStr a))) (listActionNames g)"
    using wellFormed_own(2) [OF assms] by (auto simp: listActionNames_def)
  have "loadAllTasks task g gulp =
     (case registerAll task (map (\<lambda>(k, l). registration g l) ?ps) gulp of
        Inl e \<Rightarrow> Inl e
      | Inr gulp' \<Rightarrow>
          Inr (map (\<lambda>(k, l). TaskName (createTaskName g (JStr (tlActionName l)))) ?ps,
               g, gulp'))"
    using loadAllTasks_loop_own [OF all, of task gulp "[]", unfolded append_Nil]
    by (simp add: loadAllTasks_def)
  then have first: "loadAllTasks task g gulp =
     (case registerAll task (map (\<lambda>(k, l). registration g l) ?ps) gulp of
        Inl e \<Rightarrow> Inl e
      | Inr gulp' \<Rightarrow>
          Inr (map (\<lambda>a. TaskName (createTaskName g (JStr a))) (listActionNames g), g, gulp'))"
    by (simp only: names)
  have second: "length (map (\<lambda>a. TaskName (createTaskName g (JStr a))) (listActionNames g))
       = length ?ps"
    by (simp add: listActionNames_def)
  from first second show ?thesis by (rule conjI)
qed

text \<open>
  C5. For every task group with N registered actions, \<^verbatim>\<open>loadAllTasks\<close> calls
  \<^verbatim>\<open>loadTask\<close> once for each action name in the order of enumeration and returns N
  task names, each the \<^verbatim>\<open>createTaskName\<close> of its action. The later revision
  does so (lemma \<open>loadAllTasks_registered\<close>). The earlier revision
  collects nothing and has no \<^verbatim>\<open>return\<close>: for the example group,
  with two actions, it registers both tasks and returns \<^verbatim>\<open>undefined\<close>.
\<close>

theorem loadAllTasks0_returns_undefined:
  "listActionNames exampleGroup = [''build'', ''hint'']
   \<and> loadAllTasks0 recordingHost exampleGroup [] =
       Inr (JUndefined, exampleGroup,
            [Task2 ''less:hint'' ''hintFn'',
             Task3 ''less:build'' [''fonts:copy'', ''less:clean''] ''buildFn''])"
  by (simp add: loadAllTasks0_def loadTask0_def listActionNames_def example_keys
      example_loadTask_build example_loadTask_hint)

subsection \<open>Loading does not change the group\<close>

lemma loadTask_frame:
  "loadTask task g a gulp = Inr (r, g', gulp') \<Longrightarrow> g' = g"
  by (auto simp: loadTask_def objectBuiltinCall_def
      split: property.splits sum.splits if_splits prod.splits)

lemma loadAllTasks_loop_frame:
  "loadAllTasks_loop task g as gulp acc = Inr (rs, g', gulp') \<Longrightarrow> g' = g"
proof (induction as arbitrary: gulp acc)
  case Nil
  then show ?case by simp
next
  case (Cons a as)
  then show ?case
    by (auto split: sum.splits dest: loadTask_frame)
qed

lemma loadAllTasks_frame:
  "loadAllTasks task g gulp = Inr (rs, g', gulp') \<Longrightarrow> g' = g"
  unfolding loadAllTasks_def by (rule loadAllTasks_loop_frame)

lemma loadTask0_frame:
  "loadTask0 task g a gulp = Inr (r, g', gulp') \<Longrightarrow> g' = g"
  by (auto simp: loadTask0_def split: sum.splits dest: loadTask_frame)

lemma loadAllTasks0_loop_frame:
  "loadAllTasks0_loop task g as gulp = Inr (r, g', gulp') \<Longrightarrow> g' = g"
proof (induction as arbitrary: gulp)
  case Nil
  then show ?case by simp
next
  case (Cons a as)
  then show ?case
    by (auto split: sum.splits dest: loadTask0_frame)
qed

text \<open>
  C10. Materialization never changes the task group: after \<^verbatim>\<open>loadTask\<close> or
  \<^verbatim>\<open>loadAllTasks\<close> has returned, in either revision, the group (its name, its config
  and its registry with every stored record) is the one before the call. The effect on
  the host is the sequence of \<^verbatim>\<open>gulp.task\<close> calls given by \<open>loadTask_registered\<close> and
  \<open>loadAllTasks_registered\<close>.
\<close>

theorem loading_leaves_group_unchanged:
  "(loadTask task g actionName gulp = Inr (r1, g1, gulp1) \<longrightarrow> g1 = g)
   \<and> (loadAllTasks task g gulp = Inr (r2, g2, gulp2) \<longrightarrow> g2 = g)
   \<and> (loadTask0 task g actionName gulp = Inr (r3, g3, gulp3) \<longrightarrow> g3 = g)
   \<and> (loadAllTasks0 task g gulp = Inr (r4, g4, gulp4) \<longrightarrow> g4 = g)"
  unfolding loadAllTasks0_def
  by (intro conjI impI)
    (erule loadTask_frame loadAllTasks_frame loadTask0_frame loadAllTasks0_loop_frame)+

theorem loading_leaves_group_unchanged_witness:
  "loadTask recordingHost exampleGroup ''hint'' [] =
     Inr (TaskName ''less:hint'', exampleGroup, [Task2 ''less:hint'' ''hintFn''])
   \<and> loadAllTasks recordingHost exampleGroup [] =
       Inr ([TaskName ''less:build'', TaskName ''less:hint''], exampleGroup,
            [Task2 ''less:hint'' ''hintFn'',
             Task3 ''less:build'' [''fonts:copy'', ''less:clean''] ''buildFn''])
   \<and> loadTask0 recordingHost exampleGroup ''hint'' [] =
       Inr (JUndefined, exampleGroup, [Task2 ''less:hint'' ''hintFn''])
   \<and> loadAllTasks0 recordingHost exampleGroup [] =
       Inr (JUndefined, exampleGroup,
            [Task2 ''less:hint'' ''hintFn'',
             Task3 ''less:build'' [''fonts:copy'', ''less:clean''] ''buildFn''])
   \<and> exampleGroup = exampleGroup"
  using loading_leaves_group_unchanged
    [of recordingHost exampleGroup "''hint''" "[]"
        "TaskName ''less:hint''" exampleGroup "[Task2 ''less:hint'' ''hintFn'']"
        "[TaskName ''less:build'', TaskName ''less:hint'']" exampleGroup
        "[Task2 ''less:hint'' ''hintFn'',
          Task3 ''less:build'' [''fonts:copy'', ''less:clean''] ''buildFn'']"
        JUndefined exampleGroup "[Task2 ''less:hint'' ''hintFn'']"
        JUndefined exampleGroup
        "[Task2 ''less:hint'' ''hintFn'',
          Task3 ''less:build'' [''fonts:copy'', ''less:clean''] ''buildFn'']"]
  by (simp add: loadAllTasks0_def loadTask0_def example_keys example_loadAllTasks
      example_loadTask_build example_loadTask_hint)

section \<open>The tasks module function\<close>

lemma createTasksModule_lazyLoad:
  "let new = GulpTaskGroup gn (case cfg of None \<Rightarrow> sharedConfig | Some c \<Rightarrow> c);
       defined = (case addActionsFn of None \<Rightarrow> Inr (new, gulp) | Some f \<Rightarrow> f new gulp);
       returned = createTasksModule sharedConfig gn addActionsFn task gulp lazyLoad cfg
   in (truthy lazyLoad \<longrightarrow> returned = defined)
    \<and> (\<not> truthy lazyLoad \<longrightarrow>
         returned =
           (case defined of
              Inl e \<Rightarrow> Inl e
            | Inr (tg, gulp') \<Rightarrow>
                (case loadAllTasks task tg gulp' of
                   Inl e \<Rightarrow> Inl e
                 | Inr (taskNames, tg', gulp'') \<Rightarrow> Inr (tg, gulp''))))
    \<and> (\<forall>as tg gulp'. truthy lazyLoad \<and> addActionsFn = Some (addActions as)
           \<and> returned = Inr (tg, gulp') \<longrightarrow> gulp' = gulp)"
proof -
  have frame: "\<And>tg h. (case loadAllTasks task tg h of
                   Inl e \<Rightarrow> Inl e
                 | Inr (taskNames, tg', gulp'') \<Rightarrow> Inr (tg', gulp''))
        = (case loadAllTasks task tg h of
                   Inl e \<Rightarrow> Inl e
                 | Inr (taskNames, tg', gulp'') \<Rightarrow> Inr (tg, gulp''))"
    by (auto split: sum.splits dest: loadAllTasks_frame)
  show ?thesis
    unfolding Let_def createTasksModule_def
    by (auto simp: frame split: sum.splits option.splits dest: addActions_fields)
qed

lemma createTasksModule0_never_returns:
  "createTasksModule0 sharedConfig gn addActionsFn task gulp lazyLoad cfg \<noteq> Inr r"
  by (auto simp: createTasksModule0_def Let_def split: sum.splits option.splits)

lemma createTasksModule_groupName:
  assumes "createTasksModule sharedConfig gn (Some (addActions as)) task gulp lazyLoad cfg
             = Inr (tg, gulp')"
  shows "groupName tg = gn"
  using assms
  by (auto simp: createTasksModule_def Let_def GulpTaskGroup_def
      split: sum.splits if_splits dest!: addActions_fields loadAllTasks_frame)

text \<open>
  C3. For every tasks module function that \<^verbatim>\<open>createTasksModule\<close> produces: with a
  true \<^verbatim>\<open>lazyLoad\<close> flag no action of the returned group is registered with the host
  (\<^verbatim>\<open>loadAllTasks\<close> is not called); with a false or omitted flag \<^verbatim>\<open>loadAllTasks\<close>
  is called on the new group before it is returned. The later revision
  does so (lemma \<open>createTasksModule_lazyLoad\<close>). The earlier revision
  names its parameter \<^verbatim>\<open>lazyLoad\<close> and tests \<^verbatim>\<open>lazyload\<close>: whatever the flag, the
  call ends with a \<^verbatim>\<open>ReferenceError\<close> once the actions are defined, and no group is
  returned.
\<close>

theorem createTasksModule0_throws_ReferenceError:
  "createTasksModule0 BuildConfig (JStr ''less'') (Some (addActions exampleActions))
       recordingHost [] (JBool True) None = Inl ReferenceError
   \<and> createTasksModule0 BuildConfig (JStr ''less'') (Some (addActions exampleActions))
       recordingHost [] (JBool False) None = Inl ReferenceError
   \<and> createTasksModule0 BuildConfig (JStr ''less'') (Some (addActions exampleActions))
       recordingHost [] JUndefined None = Inl ReferenceError"
  by (simp add: createTasksModule0_def Let_def exampleGroup_built)

text \<open>
  C6. Every tasks module function takes the host, a group name, a config and the
  \<^verbatim>\<open>lazyLoad\<close> flag, and builds the group under the given name, falling back to the name
  given to \<^verbatim>\<open>createTasksModule\<close> only when no name is given. The Jasmine spec of
  \<^verbatim>\<open>createTasksModule\<close> expects this of the call
  \<^verbatim>\<open>taskModuleFn(gulp, 'test-group-explicit', undefined, true)\<close>. The function that
  \<^verbatim>\<open>createTasksModule\<close> returns has the parameters \<^verbatim>\<open>(gulp, lazyLoad, config)\<close>: the
  name is taken for the flag, and the group is called \<^verbatim>\<open>test-group-fallback\<close>.
\<close>

theorem tasksModuleFn_ignores_group_name:
  "callWithFourArguments
       (createTasksModule BuildConfig (JStr ''test-group-fallback'')
          (Some (addActions [Args2 ''test-action'' ''noop''])))
       recordingHost [] (JStr ''test-group-explicit'') None (JBool True)
     = Inr (\<lparr>groupName = JStr ''test-group-fallback'', config = BuildConfig,
             taskLoaders =
               \<lparr>ownProps =
                  [(''test-action'',
                    \<lparr>tlActionName = ''test-action'', tlActionDeps = [],
                     tlTaskFn = ''noop''\<rparr>)],
                protoLoader = None\<rparr>\<rparr>, [])"
  by (simp add: callWithFourArguments_def createTasksModule_def GulpTaskGroup_def Let_def
      putLoader_def putOwn_def createOwn_def createTaskLoaderFn_def arrayIndex_nondigit
      isDigit_def)

section \<open>Names that are not own keys of the registry\<close>

lemma getProp_unknown:
  assumes "a \<notin> set (map fst (ownProps reg))" and "a \<notin> set objectPrototypeNames"
    and "protoLoader reg = None
         \<or> a \<notin> set readOnlyFunctionMembers \<and> a \<notin> set functionPrototypeMethods"
  shows "getProp reg a = Undefined"
proof -
  have "map_of (ownProps reg) a = None"
    using assms(1) by (simp add: map_of_eq_None_iff)
  moreover have "a \<noteq> ''__proto__''"
    using assms(2) by (auto simp: objectPrototypeNames_def)
  ultimately show ?thesis
    using assms(2,3) by (auto simp: getProp_def split: option.splits)
qed

text \<open>
  A name that no object of the prototype chain of \<^verbatim>\<open>_taskLoaders\<close> has reads as
  \<^verbatim>\<open>undefined\<close>, and calling it throws a \<^verbatim>\<open>TypeError\<close>, in both revisions.
\<close>

lemma loadTask_unknown:
  assumes "a \<notin> set (listActionNames g)" and "a \<notin> set objectPrototypeNames"
    and "protoLoader (taskLoaders g) = None
         \<or> a \<notin> set readOnlyFunctionMembers \<and> a \<notin> set functionPrototypeMethods"
  shows "loadTask task g a gulp = Inl TypeError" and "loadTask0 task g a gulp = Inl TypeError"
  using getProp_unknown [OF assms(1) [unfolded listActionNames_def] assms(2,3)]
  by (simp_all add: loadTask_def loadTask0_def)

text \<open>
  C7. For every task group and every action name that is not in its registry,
  \<^verbatim>\<open>loadTask\<close> fails observably: it does not succeed silently, do nothing, or return
  \<^verbatim>\<open>undefined\<close> as if that were a task name. The registry is a plain object, and the
  name \<^verbatim>\<open>toString\<close>, which is no action of the example group, reads as the method
  inherited from \<^verbatim>\<open>Object.prototype\<close>: the call returns without an error and without
  a registration, with the method's result in the later revision and with
  \<^verbatim>\<open>undefined\<close> in the earlier one.
\<close>

theorem loadTask_inherited_name_returns:
  "''toString'' \<notin> set (listActionNames exampleGroup)
   \<and> loadTask recordingHost exampleGroup ''toString'' [] =
       Inr (BuiltinResult ''toString'', exampleGroup, [])
   \<and> loadTask0 recordingHost exampleGroup ''toString'' [] =
       Inr (JUndefined, exampleGroup, [])"
  by (simp add: loadTask0_def loadTask_def getProp_def objectBuiltinCall_def
      objectPrototypeNames_def listActionNames_def exampleGroup_def)

section \<open>Adding an action twice\<close>

lemma putLoader_ordinary:
  assumes "k \<noteq> ''__proto__''"
    and "protoLoader reg = None \<or> k \<notin> set readOnlyFunctionMembers
           \<or> k \<in> set (map fst (ownProps reg))"
  shows "putLoader k l reg = Inr (reg\<lparr>ownProps := putOwn k l (ownProps reg)\<rparr>)"
  using assms by (auto simp: putLoader_def)

text \<open>
  \<^verbatim>\<open>addAction\<close> keeps the action names unique (\<open>wellFormed_addAction\<close>). Called
  twice with a name other than \<^verbatim>\<open>__proto__\<close>, on a registry whose prototype is still
  \<^verbatim>\<open>Object.prototype\<close>, it leaves one entry under the name, which holds the second
  record, and \<^verbatim>\<open>loadTask\<close> then registers the second task function and dependencies.
\<close>

lemma addAction_twice:
  assumes wf: "wellFormed g"
    and n1: "argsActionName a1 = k" and n2: "argsActionName a2 = k"
    and k: "k \<noteq> ''__proto__''"
    and ok: "protoLoader (taskLoaders g) = None \<or> k \<notin> set readOnlyFunctionMembers
               \<or> k \<in> set (listActionNames g)"
  shows "\<exists>g1 g2. addAction g a1 = Inr g1 \<and> addAction g1 a2 = Inr g2
     \<and> wellFormed g2
     \<and> count_list (listActionNames g2) k = 1
     \<and> map_of (ownProps (taskLoaders g2)) k = Some (argsLoader a2)
     \<and> loadTask task g2 k gulp =
         (case task (registration g2 (argsLoader a2)) gulp of
            Inl e \<Rightarrow> Inl e
          | Inr gulp' \<Rightarrow> Inr (TaskName (createTaskName g2 (JStr k)), g2, gulp'))"
proof -
  let ?reg = "taskLoaders g"
  let ?reg1 = "?reg\<lparr>ownProps := putOwn k (argsLoader a1) (ownProps ?reg)\<rparr>"
  let ?g1 = "g\<lparr>taskLoaders := ?reg1\<rparr>"
  let ?reg2 = "?reg1\<lparr>ownProps := putOwn k (argsLoader a2) (ownProps ?reg1)\<rparr>"
  let ?g2 = "?g1\<lparr>taskLoaders := ?reg2\<rparr>"
  have p1: "putLoader k (argsLoader a1) ?reg = Inr ?reg1"
    using k ok by (intro putLoader_ordinary) (auto simp: listActionNames_def)
  have s1: "addAction g a1 = Inr ?g1"
    by (simp add: addAction_putLoader n1 p1)
  have "k \<in> set (map fst (ownProps ?reg1))"
    using key_in_putOwn [of k "argsLoader a1" "ownProps ?reg"] by simp
  then have p2: "putLoader k (argsLoader a2) ?reg1 = Inr ?reg2"
    using k by (intro putLoader_ordinary) auto
  have s2: "addAction ?g1 a2 = Inr ?g2"
    using p2 by (simp add: addAction_putLoader n2)
  have wf2: "wellFormed ?g2"
    using wellFormed_addAction [OF wellFormed_addAction [OF wf s1] s2] .
  have d1: "distinct (map fst (ownProps ?reg1))"
    using wellFormed_addAction [OF wf s1] by (simp add: wellFormed_def)
  have c: "count_list (listActionNames ?g2) k = 1"
    using count_putOwn [OF d1, of k "argsLoader a2"] by (simp add: listActionNames_def)
  have m: "map_of (ownProps (taskLoaders ?g2)) k = Some (argsLoader a2)"
    by (simp add: map_of_putOwn)
  have l: "loadTask task ?g2 k gulp =
         (case task (registration ?g2 (argsLoader a2)) gulp of
            Inl e \<Rightarrow> Inl e
          | Inr gulp' \<Rightarrow> Inr (TaskName (createTaskName ?g2 (JStr k)), ?g2, gulp'))"
    using loadTask_own [OF m, of task gulp] by (simp only: argsLoader_name n2)
  from s1 s2 wf2 c m l show ?thesis by blast
qed

text \<open>
  C8. Action names are unique within a task group, and \<^verbatim>\<open>addAction\<close> called twice
  with the same name leaves exactly one entry under that name, which holds the second
  record, so that loading registers the second task function. For the name
  \<^verbatim>\<open>__proto__\<close> the assignment in \<^verbatim>\<open>addAction\<close> runs the setter inherited from
  \<^verbatim>\<open>Object.prototype\<close>: after the two calls the registry has no entry,
  \<^verbatim>\<open>listActionNames\<close> is empty and \<^verbatim>\<open>loadAllTasks\<close> registers nothing.
\<close>

theorem addAction_proto_leaves_no_entry:
  "addActions [Args2 ''__proto__'' ''first'', Args2 ''__proto__'' ''second'']
       (GulpTaskGroup (JStr ''less'') BuildConfig) ([] :: string task_call list)
     = Inr (\<lparr>groupName = JStr ''less'', config = BuildConfig,
             taskLoaders =
               \<lparr>ownProps = [],
                protoLoader =
                  Some \<lparr>tlActionName = ''__proto__'', tlActionDeps = [],
                        tlTaskFn = ''second''\<rparr>\<rparr>\<rparr>, [])
   \<and> listActionNames
         \<lparr>groupName = JStr ''less'', config = BuildConfig,
          taskLoaders =
            \<lparr>ownProps = [],
             protoLoader =
               Some \<lparr>tlActionName = ''__proto__'', tlActionDeps = [],
                     tlTaskFn = ''second''\<rparr>\<rparr>\<rparr> = []
   \<and> loadAllTasks recordingHost
         \<lparr>groupName = JStr ''less'', config = BuildConfig,
          taskLoaders =
            \<lparr>ownProps = [],
             protoLoader =
               Some \<lparr>tlActionName = ''__proto__'', tlActionDeps = [],
                     tlTaskFn = ''second''\<rparr>\<rparr>\<rparr> []
       = Inr ([],
              \<lparr>groupName = JStr ''less'', config = BuildConfig,
               taskLoaders =
                 \<lparr>ownProps = [],
                  protoLoader =
                    Some \<lparr>tlActionName = ''__proto__'', tlActionDeps = [],
                          tlTaskFn = ''second''\<rparr>\<rparr>\<rparr>, [])"
  by (simp add: GulpTaskGroup_def putLoader_def createTaskLoaderFn_def listActionNames_def
      loadAllTasks_def)

section \<open>The group loader\<close>

text \<open>
  For a group name that is not a member name of \<^verbatim>\<open>Object.prototype\<close>, the first call
  of \<^verbatim>\<open>getTaskGroup\<close> requires the module of that name, calls the function it exports
  with the host, \<^verbatim>\<open>true\<close> and the loader's config, and stores the group under the name.
\<close>

lemma getTaskGroup_first_call:
  assumes "map_of (taskGroups this) gn = None" and "gn \<notin> set objectPrototypeNames"
    and "require (getModuleName this gn) = Inr tasksModuleFn"
    and "tasksModuleFn task gulp (JBool True) (Some (loaderConfig this)) = Inr (tg, gulp')"
  shows "getTaskGroup require task this gn gulp =
           Inr (Group tg, this\<lparr>taskGroups := putOwn gn tg (taskGroups this)\<rparr>, gulp')"
    and "map_of (putOwn gn tg (taskGroups this)) gn = Some tg"
  using assms by (simp_all add: getTaskGroup_def map_of_putOwn)

lemma getTaskGroup_cached:
  assumes "getTaskGroup require task this gn gulp = Inr (Group tg, this', gulp')"
  shows "map_of (taskGroups this') gn = Some tg"
  using assms
  by (auto simp: getTaskGroup_def map_of_putOwn split: option.splits if_splits sum.splits)

lemma getTaskGroup_later_call:
  assumes "map_of (taskGroups this) gn = Some tg"
  shows "getTaskGroup require task this gn gulp = Inr (Group tg, this, gulp)"
  using assms by (simp add: getTaskGroup_def)

text \<open>
  Once a call has returned a group, every later call for the same name returns that group
  and leaves the loader and the host as they are, whatever \<^verbatim>\<open>require\<close> would yield: no
  module is loaded again.
\<close>

lemma getTaskGroup_memoizes:
  assumes "getTaskGroup require task this gn gulp = Inr (Group tg, this', gulp')"
  shows "getTaskGroup require' task' this' gn gulp2 = Inr (Group tg, this', gulp2)"
  using getTaskGroup_later_call [OF getTaskGroup_cached [OF assms]] .

text \<open>No call removes or replaces an entry of the cache.\<close>

lemma getTaskGroup_keeps_entries:
  assumes "getTaskGroup require task this gn gulp = Inr (r, this', gulp')"
    and "map_of (taskGroups this) k = Some v"
  shows "map_of (taskGroups this') k = Some v"
  using assms
  by (auto simp: getTaskGroup_def map_of_putOwn split: option.splits if_splits sum.splits)

lemma example_getTaskGroup_less:
  "getTaskGroup
       (\<lambda>m. if m = ''lib/tasks/less-tasks''
             then Inr (createTasksModule BuildConfig (JStr ''less'')
                         (Some (addActions exampleActions)))
             else Inl (Thrown ''Cannot find module''))
       recordingHost (GroupLoader ''lib/tasks/'' BuildConfig None) ''less'' []
     = Inr (Group exampleGroup,
            \<lparr>loaderConfig = BuildConfig, modulesDir = ''lib/tasks/'',
             taskGroups = [(''less'', exampleGroup)]\<rparr>, [])"
  by (simp add: getTaskGroup_def GroupLoader_def objectPrototypeNames_def getModuleName_def
      createTasksModule_def Let_def exampleGroup_built putOwn_def createOwn_def
      arrayIndex_nondigit isDigit_def)

text \<open>
  C9. \<^verbatim>\<open>getTaskGroup\<close> memoizes: the first call for a group name loads the module at
  \<^verbatim>\<open>_getModuleName(groupName)\<close>, calls its function with \<^verbatim>\<open>lazyLoad\<close> true and
  stores the group; every later call returns the stored group without loading, and no
  entry is ever removed. The cache is a plain object, and for the group name
  \<^verbatim>\<open>constructor\<close> the first read already finds the member inherited from
  \<^verbatim>\<open>Object.prototype\<close>: with a module \<^verbatim>\<open>constructor-tasks\<close> in place, the first call
  loads nothing, stores nothing and returns that member instead of a task group.
\<close>

theorem getTaskGroup_inherited_name_not_loaded:
  "getTaskGroup
       (\<lambda>m. if m = ''lib/tasks/constructor-tasks''
             then Inr (createTasksModule BuildConfig (JStr ''constructor'')
                         (Some (addActions exampleActions)))
             else Inl (Thrown ''Cannot find module''))
       recordingHost (GroupLoader ''lib/tasks/'' BuildConfig None) ''constructor'' []
     = Inr (InheritedMember ''constructor'', GroupLoader ''lib/tasks/'' BuildConfig None, [])
   \<and> loadedTaskGroups (GroupLoader ''lib/tasks/'' BuildConfig None :: string group_loader) = []"
  by (simp add: getTaskGroup_def GroupLoader_def objectPrototypeNames_def loadedTaskGroups_def)

end
